theory Spec2Isabelle
  imports
    Complex_Main
    "HOL-Library.Option_ord"
    "HOL-Library.Product_Lexorder"
    "HOL-Library.List_Lexorder"
    "HOL-Library.Char_ord"
    "HOL-Library.Log_Nat"
begin

section \<open>Strings\<close>

text \<open>
  Python \<open>str\<close> values are modelled as \<open>string\<close>. A character of the model is a code
  point below 256 (ASCII and Latin-1); text with other code points is outside the model.
  The predicates below are Python's character classes on these code points.
\<close>

definition is_space :: "char \<Rightarrow> bool" where
  \<comment> \<open>\<open>str.isspace\<close> and the regex class \<open>\<bslash>s\<close>: TAB, LF, VT, FF, CR, FS, GS, RS, US, SPACE,
      NEL and the no-break space\<close>
  "is_space c =
     (let n = (of_char c :: nat)
      in (9 \<le> n \<and> n \<le> 13) \<or> (28 \<le> n \<and> n \<le> 32) \<or> n = 0x85 \<or> n = 0xA0)"

definition is_digit :: "char \<Rightarrow> bool" where
  \<comment> \<open>the regex class \<open>\<bslash>d\<close>: below 256 the decimal digits are \<open>0\<close> to \<open>9\<close>\<close>
  "is_digit c = (let n = (of_char c :: nat) in 48 \<le> n \<and> n \<le> 57)"

definition is_upper :: "char \<Rightarrow> bool" where
  \<comment> \<open>the letters \<open>A\<close> to \<open>Z\<close>\<close>
  "is_upper c = (let n = (of_char c :: nat) in 65 \<le> n \<and> n \<le> 90)"

definition is_lower :: "char \<Rightarrow> bool" where
  \<comment> \<open>the letters \<open>a\<close> to \<open>z\<close>\<close>
  "is_lower c = (let n = (of_char c :: nat) in 97 \<le> n \<and> n \<le> 122)"

definition is_latin1_alnum :: "char \<Rightarrow> bool" where
  \<comment> \<open>the 71 characters from 128 to 255 that \<open>str.isalnum\<close> accepts: the ordinal
      indicators, the superscript digits, the micro sign, the fractions, and the letters
      from 0xC0 on, which leave out the signs 0xD7 and 0xF7\<close>
  "is_latin1_alnum c =
     (let n = (of_char c :: nat)
      in n = 0xAA \<or> n = 0xB2 \<or> n = 0xB3 \<or> n = 0xB5 \<or> n = 0xB9 \<or> n = 0xBA
         \<or> (0xBC \<le> n \<and> n \<le> 0xBE) \<or> (0xC0 \<le> n \<and> n \<noteq> 0xD7 \<and> n \<noteq> 0xF7))"

definition is_word :: "char \<Rightarrow> bool" where
  \<comment> \<open>the regex class \<open>\<bslash>w\<close>: alphanumeric or underscore\<close>
  "is_word c = (is_digit c \<or> is_upper c \<or> is_lower c \<or> c = CHR ''_'' \<or> is_latin1_alnum c)"

definition lower_char :: "char \<Rightarrow> char" where
  \<comment> \<open>\<open>str.lower\<close> on one character: \<open>A\<close> to \<open>Z\<close> and the capital letters 0xC0 to 0xDE\<close>
  "lower_char c =
     (let n = (of_char c :: nat)
      in if is_upper c \<or> (0xC0 \<le> n \<and> n \<le> 0xDE \<and> n \<noteq> 0xD7) then char_of (n + 32) else c)"

definition upper_char :: "char \<Rightarrow> char" where
  \<comment> \<open>the upper case of one character, where it is a character below 256: \<open>a\<close> to \<open>z\<close>
      and the small letters 0xE0 to 0xFE\<close>
  "upper_char c =
     (let n = (of_char c :: nat)
      in if is_lower c \<or> (0xE0 \<le> n \<and> n \<le> 0xFE \<and> n \<noteq> 0xF7) then char_of (n - 32) else c)"

definition lower :: "string \<Rightarrow> string" where
  \<comment> \<open>\<open>str.lower\<close>\<close>
  "lower s = map lower_char s"

definition strip :: "string \<Rightarrow> string" where
  \<comment> \<open>\<open>str.strip()\<close>\<close>
  "strip s = rev (dropWhile is_space (rev (dropWhile is_space s)))"

fun split_acc :: "string \<Rightarrow> string \<Rightarrow> string list" where
  "split_acc cur [] = (if cur = [] then [] else [rev cur])"
| "split_acc cur (c # cs) =
     (if is_space c then (if cur = [] then split_acc [] cs else rev cur # split_acc [] cs)
      else split_acc (c # cur) cs)"

definition split :: "string \<Rightarrow> string list" where
  \<comment> \<open>\<open>str.split()\<close> without argument: the maximal runs of non-whitespace\<close>
  "split s = split_acc [] s"

fun join :: "string \<Rightarrow> string list \<Rightarrow> string" where
  \<comment> \<open>\<open>sep.join(xs)\<close>\<close>
  "join sep [] = []"
| "join sep [x] = x"
| "join sep (x # y # ys) = x @ sep @ join sep (y # ys)"

definition is_linebreak :: "char \<Rightarrow> bool" where
  \<comment> \<open>the line boundaries of \<open>str.splitlines\<close>: LF, VT, FF, CR, FS, GS, RS, NEL\<close>
  "is_linebreak c =
     (let n = (of_char c :: nat)
      in (10 \<le> n \<and> n \<le> 13) \<or> (28 \<le> n \<and> n \<le> 30) \<or> n = 0x85)"

fun splitlines_acc :: "string \<Rightarrow> string \<Rightarrow> string list" where
  "splitlines_acc cur [] = (if cur = [] then [] else [rev cur])"
| "splitlines_acc cur (c # cs) =
     (if c = CHR 0x0D then
        (case cs of
           d # ds \<Rightarrow> if d = CHR 0x0A then rev cur # splitlines_acc [] ds
                     else rev cur # splitlines_acc [] cs
         | [] \<Rightarrow> rev cur # splitlines_acc [] cs)
      else if is_linebreak c then rev cur # splitlines_acc [] cs
      else splitlines_acc (c # cur) cs)"

definition splitlines :: "string \<Rightarrow> string list" where
  \<comment> \<open>\<open>str.splitlines()\<close>: CR LF is one boundary, no empty last line\<close>
  "splitlines s = splitlines_acc [] s"

definition digit_val :: "char \<Rightarrow> int" where
  "digit_val c = (of_char c :: int) - 48"

definition int_of_digits :: "string \<Rightarrow> int" where
  "int_of_digits s = foldl (\<lambda>a c. 10 * a + digit_val c) 0 s"

text \<open>
  A Python \<open>float\<close> that is not NaN is a binary64 number: a rational or plus infinity
  (the source produces no negative score). \<open>float(s)\<close> rounds the decimal value of \<open>s\<close> to
  the nearest binary64, ties to the even significand, and gives infinity from
  \<open>2^1024 - 2^970\<close> on.
\<close>

datatype binary64 = Finite rat | PosInf

instantiation binary64 :: linorder
begin

definition less_eq_binary64 :: "binary64 \<Rightarrow> binary64 \<Rightarrow> bool" where
  "less_eq_binary64 a b =
     (case b of PosInf \<Rightarrow> True | Finite y \<Rightarrow> (case a of PosInf \<Rightarrow> False | Finite x \<Rightarrow> x \<le> y))"

definition less_binary64 :: "binary64 \<Rightarrow> binary64 \<Rightarrow> bool" where
  "less_binary64 a b = (a \<le> b \<and> \<not> b \<le> a)"

instance
  by standard (auto simp: less_eq_binary64_def less_binary64_def split: binary64.splits)

end

definition pow2 :: "int \<Rightarrow> rat" where
  "pow2 e = (if 0 \<le> e then 2 ^ nat e else 1 / 2 ^ nat (- e))"

definition binade :: "rat \<Rightarrow> int" where
  \<comment> \<open>for \<open>x > 0\<close> the exponent \<open>e\<close> with \<open>2^e \<le> x < 2^(e+1)\<close>, found from the bit lengths
      of the numerator and the denominator\<close>
  "binade x =
     (let d = bitlen (fst (quotient_of x)) - bitlen (snd (quotient_of x))
      in if pow2 d \<le> x then d else d - 1)"

definition round_half_even :: "rat \<Rightarrow> int" where
  "round_half_even y =
     (let f = \<lfloor>y\<rfloor>; d = y - of_int f
      in if d < 1 / 2 then f else if 1 / 2 < d then f + 1 else if even f then f else f + 1)"

definition round_binary64 :: "rat \<Rightarrow> binary64" where
  \<comment> \<open>53 significant bits, the least exponent -1022 (below it the spacing stays
      \<open>2^-1074\<close>), infinity when the rounded value reaches \<open>2^1024\<close>\<close>
  "round_binary64 x =
     (if x \<le> 0 then Finite 0
      else
        let e = binade x in
        if 1024 \<le> e then PosInf
        else
          let q = pow2 (max e (- 1022) - 52);
              r = of_int (round_half_even (x / q)) * q
          in if e = 1023 \<and> pow2 1024 \<le> r then PosInf else Finite r)"

definition py_float :: "string \<Rightarrow> binary64" where
  \<comment> \<open>\<open>float(s)\<close> for \<open>s\<close> of the form digits or digits.digits (the only strings the source
      passes): the decimal value, rounded\<close>
  "py_float s =
     (let ip = takeWhile (\<lambda>c. c \<noteq> CHR ''.'') s;
          fp = drop (Suc (length ip)) s
      in round_binary64 (of_int (int_of_digits ip) + of_int (int_of_digits fp) / 10 ^ length fp))"

fun digits_of :: "nat \<Rightarrow> nat \<Rightarrow> string" where
  "digits_of 0 n = []"
| "digits_of (Suc k) n =
     (if n < 10 then [char_of (48 + n)] else digits_of k (n div 10) @ [char_of (48 + n mod 10)])"

definition str_nat :: "nat \<Rightarrow> string" where
  \<comment> \<open>\<open>str(j)\<close> for a non-negative integer: a number \<open>n\<close> has at most \<open>n + 1\<close> digits\<close>
  "str_nat n = digits_of (Suc n) n"

section \<open>Regular expressions\<close>

text \<open>
  The patterns of the source are values of \<open>rx\<close>, matched by a backtracking matcher with
  the priorities of Python's \<open>re\<close>: the left alternative first, greedy repetition, the
  leftmost start position. \<open>ends ic r s (i, g)\<close> lists, best first, the positions where a
  match of \<open>r\<close> that starts at \<open>i\<close> may end, each with the groups captured so far; \<open>ic\<close> is
  the flag \<open>re.I\<close>.
\<close>

datatype cclass =
    Lit char
  | Digit
  | Space
  | NonSpace
  | Range char char
  | Union cclass cclass

datatype rx =
    Eps
  | Atom cclass
  | Seq rx rx
  | Alt rx rx
  | Opt rx
  | Star rx
  | Grp nat rx
  | Bol
  | Eol
  | WordB

fun in_class :: "cclass \<Rightarrow> char \<Rightarrow> bool" where
  "in_class (Lit c) x = (x = c)"
| "in_class Digit x = is_digit x"
| "in_class Space x = is_space x"
| "in_class NonSpace x = (\<not> is_space x)"
| "in_class (Range a b) x = (a \<le> x \<and> x \<le> b)"
| "in_class (Union p q) x = (in_class p x \<or> in_class q x)"

definition in_cls :: "bool \<Rightarrow> cclass \<Rightarrow> char \<Rightarrow> bool" where
  "in_cls ic cl x =
     (in_class cl x \<or> (ic \<and> (in_class cl (lower_char x) \<or> in_class cl (upper_char x))))"

definition word_at :: "string \<Rightarrow> nat \<Rightarrow> bool" where
  "word_at s i = (i < length s \<and> is_word (s ! i))"

type_synonym caps = "(nat \<times> nat \<times> nat) list"

function ends :: "bool \<Rightarrow> rx \<Rightarrow> string \<Rightarrow> nat \<times> caps \<Rightarrow> (nat \<times> caps) list" where
  "ends ic Eps s p = [p]"
| "ends ic (Atom cl) s p =
     (if fst p < length s \<and> in_cls ic cl (s ! fst p) then [(Suc (fst p), snd p)] else [])"
| "ends ic (Seq a b) s p = concat (map (\<lambda>q. ends ic b s q) (ends ic a s p))"
| "ends ic (Alt a b) s p = ends ic a s p @ ends ic b s p"
| "ends ic (Opt a) s p = ends ic a s p @ [p]"
| "ends ic (Star a) s p =
     concat (map (\<lambda>q. if fst p < fst q \<and> fst q \<le> length s then ends ic (Star a) s q else [])
               (ends ic a s p)) @ [p]"
| "ends ic (Grp k a) s p = map (\<lambda>q. (fst q, (k, fst p, fst q) # snd q)) (ends ic a s p)"
| "ends ic Bol s p = (if fst p = 0 then [p] else [])"
| "ends ic Eol s p =
     (if fst p = length s \<or> (Suc (fst p) = length s \<and> s ! fst p = CHR 0x0A) then [p] else [])"
| "ends ic WordB s p =
     (if (0 < fst p \<and> word_at s (fst p - 1)) \<noteq> word_at s (fst p) then [p] else [])"
  by pat_completeness auto
termination
  by (relation "measures [\<lambda>(ic, r, s, p). size r, \<lambda>(ic, r, s, p). length s - fst p]") auto

definition plus :: "rx \<Rightarrow> rx" where
  \<comment> \<open>\<open>r+\<close>\<close>
  "plus r = Seq r (Star r)"

fun lits :: "string \<Rightarrow> rx" where
  \<comment> \<open>a literal string\<close>
  "lits [] = Eps"
| "lits (c # cs) = Seq (Atom (Lit c)) (lits cs)"

fun times :: "nat \<Rightarrow> rx \<Rightarrow> rx" where
  "times 0 r = Eps"
| "times (Suc n) r = Seq r (times n r)"

fun upto_times :: "nat \<Rightarrow> rx \<Rightarrow> rx" where
  "upto_times 0 r = Eps"
| "upto_times (Suc n) r = Opt (Seq r (upto_times n r))"

definition rep :: "nat \<Rightarrow> nat \<Rightarrow> rx \<Rightarrow> rx" where
  \<comment> \<open>\<open>r{m,n}\<close>, greedy\<close>
  "rep m n r = Seq (times m r) (upto_times (n - m) r)"

record rmatch =
  mstart :: nat
  mend :: nat
  mgroups :: caps

definition match_at :: "bool \<Rightarrow> rx \<Rightarrow> string \<Rightarrow> nat \<Rightarrow> rmatch option" where
  "match_at ic r s i =
     (case ends ic r s (i, []) of
        [] \<Rightarrow> None
      | q # _ \<Rightarrow> Some \<lparr>mstart = i, mend = fst q, mgroups = snd q\<rparr>)"

fun first_match :: "bool \<Rightarrow> rx \<Rightarrow> string \<Rightarrow> nat list \<Rightarrow> rmatch option" where
  "first_match ic r s [] = None"
| "first_match ic r s (i # is) =
     (case match_at ic r s i of Some m \<Rightarrow> Some m | None \<Rightarrow> first_match ic r s is)"

definition re_search_from :: "bool \<Rightarrow> rx \<Rightarrow> string \<Rightarrow> nat \<Rightarrow> rmatch option" where
  "re_search_from ic r s i = first_match ic r s [i..<Suc (length s)]"

definition re_search :: "bool \<Rightarrow> rx \<Rightarrow> string \<Rightarrow> rmatch option" where
  \<comment> \<open>\<open>re.search\<close>: the match at the leftmost start\<close>
  "re_search ic r s = re_search_from ic r s 0"

definition re_match :: "bool \<Rightarrow> rx \<Rightarrow> string \<Rightarrow> rmatch option" where
  \<comment> \<open>\<open>re.match\<close>: a match at the start\<close>
  "re_match ic r s = match_at ic r s 0"

definition re_fullmatch :: "bool \<Rightarrow> rx \<Rightarrow> string \<Rightarrow> rmatch option" where
  \<comment> \<open>\<open>re.fullmatch\<close>: the best match of the whole string\<close>
  "re_fullmatch ic r s =
     (case filter (\<lambda>q. fst q = length s) (ends ic r s (0, [])) of
        [] \<Rightarrow> None
      | q # _ \<Rightarrow> Some \<lparr>mstart = 0, mend = fst q, mgroups = snd q\<rparr>)"

definition group :: "string \<Rightarrow> rmatch \<Rightarrow> nat \<Rightarrow> string" where
  \<comment> \<open>\<open>m.group(k)\<close> for a group that took part in the match\<close>
  "group s m k =
     (case map_of (mgroups m) k of
        None \<Rightarrow> []
      | Some (b, e) \<Rightarrow> take (e - b) (drop b s))"

function re_sub_from :: "bool \<Rightarrow> rx \<Rightarrow> string \<Rightarrow> string \<Rightarrow> nat \<Rightarrow> string" where
  "re_sub_from ic r repl s i =
     (case re_search_from ic r s i of
        None \<Rightarrow> drop i s
      | Some m \<Rightarrow>
          if i \<le> mstart m \<and> mstart m < mend m \<and> mend m \<le> length s
          then take (mstart m - i) (drop i s) @ repl @ re_sub_from ic r repl s (mend m)
          else if i \<le> mstart m \<and> mstart m = mend m \<and> mstart m < length s
          then take (mstart m - i) (drop i s) @ repl @ [s ! mstart m]
                 @ re_sub_from ic r repl s (Suc (mstart m))
          else take (mstart m - i) (drop i s) @ repl @ drop (mstart m) s)"
  by pat_completeness auto
termination
  by (relation "measure (\<lambda>(ic, r, repl, s, i). length s - i)") auto

definition re_sub :: "bool \<Rightarrow> rx \<Rightarrow> string \<Rightarrow> string \<Rightarrow> string" where
  \<comment> \<open>\<open>re.sub(r, repl, s)\<close> for a replacement without group references: every match,
      left to right, is replaced; after an empty match one character is copied\<close>
  "re_sub ic r repl s = re_sub_from ic r repl s 0"

section \<open>The patterns of the source\<close>

definition rx_whitespace :: rx where
  \<comment> \<open>\<^verbatim>\<open>\s+\<close>\<close>
  "rx_whitespace = plus (Atom Space)"

definition rx_blend_word :: rx where
  \<comment> \<open>\<^verbatim>\<open>\bBL(END)?\b\<close>\<close>
  "rx_blend_word = Seq WordB (Seq (lits ''BL'') (Seq (Opt (Grp 1 (lits ''END''))) WordB))"

definition rx_blend_header :: rx where
  \<comment> \<open>\<^verbatim>\<open>bl(end)?\<close>\<close>
  "rx_blend_header = Seq (lits ''bl'') (Opt (Grp 1 (lits ''end'')))"

definition rx_number :: rx where
  \<comment> \<open>\<^verbatim>\<open>\d+(?:\.\d+)?\<close>\<close>
  "rx_number = Seq (plus (Atom Digit)) (Opt (Seq (Atom (Lit CHR ''.'')) (plus (Atom Digit))))"

definition rx_cell_number :: rx where
  \<comment> \<open>\<^verbatim>\<open>(\d+(?:\.\d+)?)\<close>\<close>
  "rx_cell_number = Grp 1 rx_number"

definition rx_chrome :: rx where
  \<comment> \<open>\<^verbatim>\<open>(https?://\S+)|(ADP Data|Hashtag Basketball|Season|Updated|\bBL(END)?\b)\<close>\<close>
  "rx_chrome =
     Alt (Grp 1 (Seq (lits ''http'') (Seq (Opt (Atom (Lit CHR ''s'')))
                   (Seq (lits ''://'') (plus (Atom NonSpace))))))
         (Grp 2 (Alt (lits ''ADP Data'')
                (Alt (lits ''Hashtag Basketball'')
                (Alt (lits ''Season'')
                (Alt (lits ''Updated'')
                     (Seq WordB (Seq (lits ''BL'') (Seq (Opt (Grp 3 (lits ''END''))) WordB))))))))"

definition rx_trailing_number :: rx where
  \<comment> \<open>\<^verbatim>\<open>(\d+(?:\.\d+)?)\s*$\<close>\<close>
  "rx_trailing_number = Seq (Grp 1 rx_number) (Seq (Star (Atom Space)) Eol)"

definition rx_leading_index :: rx where
  \<comment> \<open>\<^verbatim>\<open>^\s*\d+[\.\-]?\s*\<close>\<close>
  "rx_leading_index =
     Seq Bol (Seq (Star (Atom Space)) (Seq (plus (Atom Digit))
       (Seq (Opt (Atom (Union (Lit CHR ''.'') (Lit CHR ''-'')))) (Star (Atom Space)))))"

definition rx_position :: rx where
  \<comment> \<open>\<^verbatim>\<open>\(([A-Z/]+)\)\<close>\<close>
  "rx_position =
     Seq (Atom (Lit CHR ''(''))
       (Seq (Grp 1 (plus (Atom (Union (Range CHR ''A'' CHR ''Z'') (Lit CHR ''/'')))))
            (Atom (Lit CHR '')'')))"

definition rx_team :: rx where
  \<comment> \<open>\<^verbatim>\<open>[A-Z]{2,4}\<close>\<close>
  "rx_team = rep 2 4 (Atom (Range CHR ''A'' CHR ''Z''))"

definition rx_link :: rx where
  \<comment> \<open>\<^verbatim>\<open>^https?://\<close>\<close>
  "rx_link = Seq Bol (Seq (lits ''http'') (Seq (Opt (Atom (Lit CHR ''s''))) (lits ''://'')))"

section \<open>Extraction of the raw records\<close>

text \<open>
  What \<open>pdfplumber\<close> returns is the input of the model: a page gives its tables (a grid of
  optional cell texts each) and its text, either of which may be \<open>None\<close>. A raw record is
  the tuple \<open>(player, team, pos, blend)\<close> appended to \<open>rows\<close>.
\<close>

datatype py_error = IndexError | KeyError | OpenError

type_synonym cell = "string option"
type_synonym table = "cell list list"
type_synonym raw_row = "string \<times> string \<times> string \<times> binary64 option"

record page =
  extract_tables :: "table list option"
  extract_text :: "string option"

definition clean :: "string option \<Rightarrow> string" where
  \<comment> \<open>\<open>_clean\<close>: \<open>s or ""\<close>, whitespace runs to one space, stripped\<close>
  "clean s = strip (re_sub False rx_whitespace '' '' (case s of None \<Rightarrow> [] | Some t \<Rightarrow> t))"

definition truthy :: "cell \<Rightarrow> bool" where
  \<comment> \<open>the truth value of a cell: neither \<open>None\<close> nor the empty string\<close>
  "truthy c = (case c of None \<Rightarrow> False | Some t \<Rightarrow> t \<noteq> [])"

definition is_header_row :: "cell list \<Rightarrow> bool" where
  "is_header_row r =
     (let joined = join '' '' (map clean (filter truthy r))
      in re_search True rx_blend_word joined \<noteq> None)"

definition find_header :: "table \<Rightarrow> nat option" where
  \<comment> \<open>the first of the first three rows that names the blend column\<close>
  "find_header tbl =
     map_option fst (List.find (\<lambda>(i, r). is_header_row r) (enumerate 0 (take 3 tbl)))"

definition header_names :: "cell list \<Rightarrow> string list" where
  "header_names hr =
     map (\<lambda>(j, c). if clean c = [] then ''C'' @ str_nat j else clean c) (enumerate 0 hr)"

definition colmap_of :: "string list \<Rightarrow> (string \<rightharpoonup> nat)" where
  \<comment> \<open>the dict comprehension: a later header of the same lower-case name wins\<close>
  "colmap_of headers = fold (\<lambda>(j, h) m. m(lower h \<mapsto> j)) (enumerate 0 headers) Map.empty"

definition find_blend_idx :: "string list \<Rightarrow> nat option" where
  "find_blend_idx headers =
     map_option fst
       (List.find (\<lambda>(j, h). re_fullmatch False rx_blend_header (lower (clean (Some h))) \<noteq> None)
          (enumerate 0 headers))"

definition getitem :: "'a list \<Rightarrow> nat \<Rightarrow> py_error + 'a" where
  \<comment> \<open>\<open>r[idx]\<close> for an index that is not negative\<close>
  "getitem r idx = (if idx < length r then Inr (r ! idx) else Inl IndexError)"

definition g :: "cell list \<Rightarrow> nat \<Rightarrow> cell" where
  \<comment> \<open>the inner function \<open>g\<close>: any exception of the access gives \<open>None\<close>\<close>
  "g r idx = (case getitem r idx of Inl e \<Rightarrow> None | Inr c \<Rightarrow> c)"

definition table_row ::
  "nat \<Rightarrow> nat option \<Rightarrow> nat option \<Rightarrow> nat option \<Rightarrow> cell list \<Rightarrow> raw_row option" where
  \<comment> \<open>one data row of a table: \<open>None\<close> where the source says \<open>continue\<close>\<close>
  "table_row player_idx team_idx pos_idx blend_idx r =
     (if \<not> list_ex truthy r then None
      else
        let player = clean (g r player_idx) in
        if player = [] \<or> length (split player) < 2 then None
        else
          let team = (case team_idx of None \<Rightarrow> [] | Some j \<Rightarrow> clean (g r j));
              pos = (case pos_idx of None \<Rightarrow> [] | Some j \<Rightarrow> clean (g r j));
              blend_raw = (case blend_idx of None \<Rightarrow> [] | Some j \<Rightarrow> clean (g r j));
              m = (if blend_raw \<noteq> [] then re_search False rx_cell_number blend_raw else None);
              blend = (case m of None \<Rightarrow> None | Some mm \<Rightarrow> Some (py_float (group blend_raw mm 1)))
          in Some (player, team, pos, blend))"

definition table_rows :: "table \<Rightarrow> raw_row list" where
  "table_rows tbl =
     (case find_header tbl of
        None \<Rightarrow> []
      | Some header_idx \<Rightarrow>
          let headers = header_names (tbl ! header_idx);
              colmap = colmap_of headers;
              blend_idx = find_blend_idx headers;
              player_idx = (case colmap ''player'' of None \<Rightarrow> 0 | Some j \<Rightarrow> j);
              team_idx = colmap ''team'';
              pos_idx = colmap ''pos''
          in List.map_filter (table_row player_idx team_idx pos_idx blend_idx)
               (drop (Suc header_idx) tbl))"

definition text_line :: "string \<Rightarrow> raw_row option" where
  \<comment> \<open>one line of the page text: \<open>None\<close> where the source says \<open>continue\<close> or appends nothing\<close>
  "text_line raw =
     (let line = clean (Some raw) in
      if line = [] then None
      else if re_search True rx_chrome line \<noteq> None then None
      else
        case re_search False rx_trailing_number line of
          None \<Rightarrow> None
        | Some m_end \<Rightarrow>
            let blend = py_float (group line m_end 1);
                body0 = strip (re_sub False rx_trailing_number [] line);
                body1 = re_sub False rx_leading_index [] body0;
                m_pos = re_search False rx_position body1;
                pos = (case m_pos of None \<Rightarrow> [] | Some mp \<Rightarrow> group body1 mp 1);
                body = (case m_pos of None \<Rightarrow> body1
                        | Some mp \<Rightarrow> strip (take (mstart mp) body1 @ drop (mend mp) body1));
                parts0 = split body;
                has_team = (parts0 \<noteq> [] \<and> re_fullmatch False rx_team (last parts0) \<noteq> None);
                team = (if has_team then last parts0 else []);
                parts = (if has_team then butlast parts0 else parts0);
                player = clean (Some (join '' '' parts))
            in if re_match True rx_link player \<noteq> None then None
               else if 2 \<le> length (split player) then Some (player, team, pos, Some blend)
               else None)"

definition page_rows :: "page \<Rightarrow> raw_row list" where
  \<comment> \<open>the tables of the page first, then the lines of its text\<close>
  "page_rows pg =
     concat (map table_rows (case extract_tables pg of None \<Rightarrow> [] | Some ts \<Rightarrow> ts))
     @ List.map_filter text_line
         (splitlines (case extract_text pg of None \<Rightarrow> [] | Some t \<Rightarrow> t))"

definition pdf_rows :: "page list \<Rightarrow> raw_row list" where
  "pdf_rows pages = concat (map page_rows pages)"

section \<open>The data frame operations\<close>

text \<open>
  A cell of a data frame is missing (\<open>NaN\<close>, \<open>None\<close>), a number or a string. The column
  \<open>Blend\<close> is numeric after \<open>pd.to_numeric\<close>: a number or missing. The type \<open>'s\<close> of the
  numbers is any linear order; both paths use \<open>binary64\<close>.
\<close>

datatype 's val = NA | Num 's | Str string

record 's row =
  Player :: "'s val"
  Team :: "'s val"
  Pos :: "'s val"
  Blend :: "'s option"

record 's ranked_row = "'s row" +
  ADP_Rank :: "nat option"

record 's frame =
  columns :: "string list"
  rows :: "'s ranked_row list"

definition empty_frame :: "'s frame" where
  \<comment> \<open>\<open>pd.DataFrame(columns=["Player","Team","Pos","Blend","ADP_Rank"])\<close>\<close>
  "empty_frame = \<lparr>columns = [''Player'', ''Team'', ''Pos'', ''Blend'', ''ADP_Rank''], rows = []\<rparr>"

definition blend_key :: "'s option \<Rightarrow> bool \<times> 's option" where
  \<comment> \<open>ascending with \<open>na_position="last"\<close>: every number before every missing value\<close>
  "blend_key b = (b = None, b)"

definition val_key :: "'s val \<Rightarrow> nat \<times> 's option \<times> string" where
  \<comment> \<open>the order of the values of one column, missing values last; a column holds numbers
      or strings, and the order between a number and a string is never consulted\<close>
  "val_key v = (case v of Num x \<Rightarrow> (0, Some x, []) | Str t \<Rightarrow> (1, None, t) | NA \<Rightarrow> (2, None, []))"

definition sort_values :: "('s::linorder, 'a) row_scheme list \<Rightarrow> ('s, 'a) row_scheme list" where
  \<comment> \<open>\<open>sort_values(["Blend","Player"], ascending=[True,True], na_position="last")\<close>:
      a stable sort on the two keys\<close>
  "sort_values df = sort_key (\<lambda>r. (blend_key (Blend r), val_key (Player r))) df"

fun drop_dups :: "'s val list \<Rightarrow> ('s, 'a) row_scheme list \<Rightarrow> ('s, 'a) row_scheme list" where
  "drop_dups seen [] = []"
| "drop_dups seen (r # rs) =
     (if Player r \<in> set seen then drop_dups seen rs else r # drop_dups (Player r # seen) rs)"

definition drop_duplicates :: "('s, 'a) row_scheme list \<Rightarrow> ('s, 'a) row_scheme list" where
  \<comment> \<open>\<open>drop_duplicates(subset=["Player"], keep="first")\<close>\<close>
  "drop_duplicates df = drop_dups [] df"

definition head :: "nat \<Rightarrow> 'a list \<Rightarrow> 'a list" where
  \<comment> \<open>\<open>df.head(n)\<close>\<close>
  "head n df = take n df"

definition rank_at :: "('s::linorder) option list \<Rightarrow> nat \<Rightarrow> nat option" where
  \<comment> \<open>the rank of the value of index \<open>i\<close>: a number gets one plus the count of the smaller
      numbers and of the equal numbers before it; a missing value keeps a missing rank
      (\<open>na_option="keep"\<close> is the default)\<close>
  "rank_at xs i =
     (case xs ! i of
        None \<Rightarrow> None
      | Some v \<Rightarrow>
          Some (Suc (length (filter
            (\<lambda>j. case xs ! j of None \<Rightarrow> False | Some w \<Rightarrow> w < v \<or> (w = v \<and> j < i))
            [0..<length xs]))))"

definition rank_first :: "('s::linorder) option list \<Rightarrow> nat option list" where
  \<comment> \<open>\<open>Series.rank(method="first")\<close> and \<open>astype("Int64")\<close>\<close>
  "rank_first xs = map (rank_at xs) [0..<length xs]"

definition with_rank :: "('s::linorder) row list \<Rightarrow> 's ranked_row list" where
  \<comment> \<open>\<open>df["ADP_Rank"] = df["Blend"].rank(method="first").astype("Int64")\<close>\<close>
  "with_rank df =
     map (\<lambda>(r, k). \<lparr>Player = Player r, Team = Team r, Pos = Pos r, Blend = Blend r, ADP_Rank = k\<rparr>)
       (zip df (rank_first (map Blend df)))"

definition out_columns :: "string list" where
  "out_columns = [''Player'', ''Team'', ''Pos'', ''Blend'', ''ADP_Rank'']"

section \<open>The PDF path\<close>

definition frame_of_rows :: "raw_row list \<Rightarrow> binary64 row list" where
  \<comment> \<open>\<open>pd.DataFrame(rows, columns=[...])\<close> and \<open>pd.to_numeric\<close> on the floats and
      \<open>None\<close>s of \<open>Blend\<close>\<close>
  "frame_of_rows rs =
     map (\<lambda>(player, team, pos, blend).
            \<lparr>Player = Str player, Team = Str team, Pos = Str pos, Blend = blend\<rparr>) rs"

definition consolidate :: "raw_row list \<Rightarrow> binary64 frame" where
  \<comment> \<open>lines 93 to 104 of \<open>parse_pdf_cached\<close>\<close>
  "consolidate rs =
     (if rs = [] then empty_frame
      else \<lparr>columns = out_columns,
            rows = with_rank (head 300 (drop_duplicates (sort_values (frame_of_rows rs))))\<rparr>)"

definition parse_pdf_cached ::
  "(string \<Rightarrow> py_error + page list) option \<Rightarrow> string \<Rightarrow> py_error + binary64 frame" where
  \<comment> \<open>the first argument is the module \<open>pdfplumber\<close>: \<open>None\<close> when the import fails, else
      its function from the bytes of a file to the pages, which may raise\<close>
  "parse_pdf_cached pdfplumber pdf_bytes =
     (case pdfplumber of
        None \<Rightarrow> Inr empty_frame
      | Some pdf_open \<Rightarrow>
          (case pdf_open pdf_bytes of
             Inl e \<Rightarrow> Inl e
           | Inr pages \<Rightarrow> Inr (consolidate (pdf_rows pages))))"

section \<open>The CSV path\<close>

text \<open>
  \<open>pd.read_csv\<close> gives named columns, each of numbers or of strings, with missing values.
  It makes the names of the columns distinct, so \<open>df[name]\<close> is the one column of that
  name; all columns of a file have the same length.
\<close>

datatype 's column = NumCol "'s option list" | StrCol "string option list"

type_synonym 's csv = "(string \<times> 's column) list"

definition column_vals :: "'s column \<Rightarrow> 's val list" where
  "column_vals c =
     (case c of
        NumCol xs \<Rightarrow> map (\<lambda>x. case x of None \<Rightarrow> NA | Some v \<Rightarrow> Num v) xs
      | StrCol ts \<Rightarrow> map (\<lambda>t. case t of None \<Rightarrow> NA | Some v \<Rightarrow> Str v) ts)"

definition to_numeric :: "(string \<Rightarrow> 's option) \<Rightarrow> 's column \<Rightarrow> 's option list" where
  \<comment> \<open>\<open>pd.to_numeric(c, errors="coerce")\<close>; the first argument reads a number from a string\<close>
  "to_numeric num_of_str c =
     (case c of
        NumCol xs \<Rightarrow> xs
      | StrCol ts \<Rightarrow> map (\<lambda>t. case t of None \<Rightarrow> None | Some v \<Rightarrow> num_of_str v) ts)"

definition cols_of :: "'s csv \<Rightarrow> (string \<rightharpoonup> string)" where
  \<comment> \<open>\<open>{c.lower(): c for c in df.columns}\<close>\<close>
  "cols_of df = fold (\<lambda>c m. m(lower c \<mapsto> c)) (map fst df) Map.empty"

fun pick :: "(string \<rightharpoonup> string) \<Rightarrow> string list \<Rightarrow> string option" where
  "pick cols [] = None"
| "pick cols (n # names) = (case cols n of Some c \<Rightarrow> Some c | None \<Rightarrow> pick cols names)"

definition column_named :: "'s csv \<Rightarrow> string \<Rightarrow> py_error + 's column" where
  \<comment> \<open>\<open>df[name]\<close>\<close>
  "column_named df name = (case map_of df name of None \<Rightarrow> Inl KeyError | Some c \<Rightarrow> Inr c)"

definition first_column :: "'s csv \<Rightarrow> py_error + 's column" where
  \<comment> \<open>\<open>df.iloc[:,0]\<close>\<close>
  "first_column df = (case df of [] \<Rightarrow> Inl IndexError | c # _ \<Rightarrow> Inr (snd c))"

definition cell_at :: "'s val list \<Rightarrow> nat \<Rightarrow> 's val" where
  \<comment> \<open>the value a column gives to the row of index \<open>i\<close>; the columns of one file have the
      same length, and an index without a value would get a missing one\<close>
  "cell_at vs i = (if i < length vs then vs ! i else NA)"

definition num_at :: "'s option list \<Rightarrow> nat \<Rightarrow> 's option" where
  "num_at xs i = (if i < length xs then xs ! i else None)"

definition build_out ::
  "'s val list \<Rightarrow> 's val list option \<Rightarrow> 's val list option \<Rightarrow> 's option list option \<Rightarrow> 's row list"
  where
  \<comment> \<open>the frame \<open>out\<close> of \<open>parse_csv\<close>: an absent team or position column gives \<open>""\<close> in every
      row, an absent blend column gives \<open>None\<close>\<close>
  "build_out players teams poss blends =
     map (\<lambda>i. \<lparr>Player = players ! i,
                Team = (case teams of None \<Rightarrow> Str [] | Some vs \<Rightarrow> cell_at vs i),
                Pos = (case poss of None \<Rightarrow> Str [] | Some vs \<Rightarrow> cell_at vs i),
                Blend = (case blends of None \<Rightarrow> None | Some xs \<Rightarrow> num_at xs i)\<rparr>)
       [0..<length players]"

definition optional_column :: "'s csv \<Rightarrow> string option \<Rightarrow> py_error + 's column option" where
  \<comment> \<open>\<open>df[col] if col else ...\<close>\<close>
  "optional_column df col =
     (case col of
        None \<Rightarrow> Inr None
      | Some c \<Rightarrow> (case column_named df c of Inl e \<Rightarrow> Inl e | Inr x \<Rightarrow> Inr (Some x)))"

definition parse_csv ::
  "('f \<Rightarrow> py_error + ('s::linorder) csv) \<Rightarrow> (string \<Rightarrow> 's option) \<Rightarrow> 'f \<Rightarrow> py_error + 's frame"
  where
  \<comment> \<open>the first two arguments are \<open>pd.read_csv\<close>, which may raise, and the reading of a
      number from a string inside \<open>pd.to_numeric\<close>\<close>
  "parse_csv read_csv num_of_str file =
     (case read_csv file of
        Inl e \<Rightarrow> Inl e
      | Inr df \<Rightarrow>
          let cols = cols_of df;
              col_player = pick cols [''player'', ''name'', ''player_name''];
              col_blend = pick cols [''blend'', ''adp'', ''avg_draft_position'', ''avgdraftposition''];
              col_team = pick cols [''team'', ''tm''];
              col_pos = pick cols [''pos'', ''position'']
          in
          case (case col_player of None \<Rightarrow> first_column df | Some c \<Rightarrow> column_named df c) of
            Inl e \<Rightarrow> Inl e
          | Inr players \<Rightarrow>
          case optional_column df col_team of
            Inl e \<Rightarrow> Inl e
          | Inr teams \<Rightarrow>
          case optional_column df col_pos of
            Inl e \<Rightarrow> Inl e
          | Inr poss \<Rightarrow>
          case optional_column df col_blend of
            Inl e \<Rightarrow> Inl e
          | Inr blends \<Rightarrow>
              let out = build_out (column_vals players) (map_option column_vals teams)
                          (map_option column_vals poss) (map_option (to_numeric num_of_str) blends)
              in Inr \<lparr>columns = out_columns, rows = with_rank (head 300 (sort_values out))\<rparr>)"

section \<open>The draft state\<close>

record 's session =
  players_df :: "'s frame option"
  drafted :: "'s val set"

definition remaining_df :: "'s frame \<Rightarrow> 's val set \<Rightarrow> 's ranked_row list" where
  \<comment> \<open>\<open>df[~df["Player"].isin(drafted)]\<close>\<close>
  "remaining_df df d = filter (\<lambda>r. Player r \<notin> d) (rows df)"

definition drafted_df :: "'s frame \<Rightarrow> 's val set \<Rightarrow> 's ranked_row list" where
  \<comment> \<open>\<open>df[df["Player"].isin(drafted)]\<close>\<close>
  "drafted_df df d = filter (\<lambda>r. Player r \<in> d) (rows df)"

definition move_to_drafted :: "'s val list \<Rightarrow> 's session \<Rightarrow> 's session" where
  \<comment> \<open>the button of lines 175 to 178; it is disabled for an empty selection, so the update
      runs for a selection that is not empty\<close>
  "move_to_drafted to_draft st =
     (if length to_draft = 0 then st else st\<lparr>drafted := drafted st \<union> set to_draft\<rparr>)"

definition reset_drafted :: "'s session \<Rightarrow> 's session" where
  "reset_drafted st = st\<lparr>drafted := {}\<rparr>"

section \<open>Notions used to state the properties\<close>

definition row_key ::
  "('s::linorder, 'a) row_scheme \<Rightarrow> (bool \<times> 's option) \<times> nat \<times> 's option \<times> string" where
  \<comment> \<open>the key \<open>sort_values\<close> sorts on\<close>
  "row_key r = (blend_key (Blend r), val_key (Player r))"

definition score_le :: "('s::linorder) option \<Rightarrow> 's option \<Rightarrow> bool" where
  \<comment> \<open>the order of the scores with a missing score as plus infinity\<close>
  "score_le a b =
     (case b of None \<Rightarrow> True | Some y \<Rightarrow> (case a of None \<Rightarrow> False | Some x \<Rightarrow> x \<le> y))"

definition name_le :: "('s::linorder) val \<Rightarrow> 's val \<Rightarrow> bool" where
  \<comment> \<open>the order of the player names: strings by their characters, a missing name last\<close>
  "name_le a b =
     (case (a, b) of
        (Str p, Str q) \<Rightarrow> p \<le> q
      | (Num x, Num y) \<Rightarrow> x \<le> y
      | (_, NA) \<Rightarrow> True
      | (NA, _) \<Rightarrow> False
      | (Num x, Str q) \<Rightarrow> True
      | (Str p, Num y) \<Rightarrow> False)"

section \<open>Example inputs\<close>

definition fixed_pages :: "page list \<Rightarrow> string \<Rightarrow> py_error + page list" where
  \<comment> \<open>a PDF backend that opens every file and finds the given pages\<close>
  "fixed_pages pages pdf_bytes = Inr pages"

definition fixed_csv :: "'s csv \<Rightarrow> string \<Rightarrow> py_error + 's csv" where
  \<comment> \<open>a \<open>read_csv\<close> that reads the given frame from every file\<close>
  "fixed_csv df file = Inr df"

definition no_number :: "string \<Rightarrow> binary64 option" where
  \<comment> \<open>a reading of numbers that finds no number in a string\<close>
  "no_number t = None"

definition ranking_page :: page where
  \<comment> \<open>a page with one table, whose second data row has no number in the blend cell\<close>
  "ranking_page =
     \<lparr>extract_tables = Some [[[Some ''Player'', Some ''BLEND''],
                              [Some ''Joel Embiid'', Some ''n/a''],
                              [Some ''Nikola Jokic'', Some ''1.2'']]],
      extract_text = None\<rparr>"

definition chrome_page :: page where
  \<comment> \<open>a page without tables whose text is a title and a link\<close>
  "chrome_page =
     \<lparr>extract_tables = None,
      extract_text = Some (''ADP Data'' @ [CHR 0x0A] @ ''https://example.com/ADP'')\<rparr>"

definition duplicate_csv :: "binary64 csv" where
  \<comment> \<open>the file \<open>Player,Blend / A B,1 / A B,2\<close> as \<open>read_csv\<close> returns it\<close>
  "duplicate_csv =
     [(''Player'', StrCol [Some ''A B'', Some ''A B'']), (''Blend'', NumCol [Some (Finite 1), Some (Finite 2)])]"

definition unscored_csv :: "binary64 csv" where
  \<comment> \<open>the file \<open>name,adp / C D, / A B,2\<close> as \<open>read_csv\<close> returns it\<close>
  "unscored_csv =
     [(''name'', StrCol [Some ''C D'', Some ''A B'']), (''adp'', NumCol [None, Some (Finite 2)])]"

definition ranking_frame :: "binary64 frame" where
  \<comment> \<open>the roster of \<open>ranking_page\<close>\<close>
  "ranking_frame =
     \<lparr>columns = [''Player'', ''Team'', ''Pos'', ''Blend'', ''ADP_Rank''],
      rows = [\<lparr>Player = Str ''Nikola Jokic'', Team = Str [], Pos = Str [],
                Blend = Some (Finite (5404319552844595 / 4503599627370496)), ADP_Rank = Some 1\<rparr>,
              \<lparr>Player = Str ''Joel Embiid'', Team = Str [], Pos = Str [],
                Blend = None, ADP_Rank = None\<rparr>]\<rparr>"

definition unscored_frame :: "binary64 frame" where
  \<comment> \<open>the roster of \<open>unscored_csv\<close>\<close>
  "unscored_frame =
     \<lparr>columns = [''Player'', ''Team'', ''Pos'', ''Blend'', ''ADP_Rank''],
      rows = [\<lparr>Player = Str ''A B'', Team = Str [], Pos = Str [],
                Blend = Some (Finite 2), ADP_Rank = Some 1\<rparr>,
              \<lparr>Player = Str ''C D'', Team = Str [], Pos = Str [],
                Blend = None, ADP_Rank = None\<rparr>]\<rparr>"

definition duplicate_frame :: "binary64 frame" where
  \<comment> \<open>the roster of \<open>duplicate_csv\<close>\<close>
  "duplicate_frame =
     \<lparr>columns = [''Player'', ''Team'', ''Pos'', ''Blend'', ''ADP_Rank''],
      rows = [\<lparr>Player = Str ''A B'', Team = Str [], Pos = Str [],
                Blend = Some (Finite 1), ADP_Rank = Some 1\<rparr>,
              \<lparr>Player = Str ''A B'', Team = Str [], Pos = Str [],
                Blend = Some (Finite 2), ADP_Rank = Some 2\<rparr>]\<rparr>"

definition tie_page :: page where
  \<comment> \<open>a page without tables whose text has three player lines, two of them with one score\<close>
  "tie_page =
     \<lparr>extract_tables = None,
      extract_text = Some (''Joel Embiid PHI 2.5'' @ [CHR 0x0A] @ ''Nikola Jokic DEN 1.2''
                             @ [CHR 0x0A] @ ''Anthony Davis LAL 2.5'')\<rparr>"

definition tie_frame :: "binary64 frame" where
  \<comment> \<open>the roster of \<open>tie_page\<close>\<close>
  "tie_frame =
     \<lparr>columns = [''Player'', ''Team'', ''Pos'', ''Blend'', ''ADP_Rank''],
      rows = [\<lparr>Player = Str ''Nikola Jokic'', Team = Str ''DEN'', Pos = Str [],
                Blend = Some (Finite (5404319552844595 / 4503599627370496)), ADP_Rank = Some 1\<rparr>,
              \<lparr>Player = Str ''Anthony Davis'', Team = Str ''LAL'', Pos = Str [],
                Blend = Some (Finite (5 / 2)), ADP_Rank = Some 2\<rparr>,
              \<lparr>Player = Str ''Joel Embiid'', Team = Str ''PHI'', Pos = Str [],
                Blend = Some (Finite (5 / 2)), ADP_Rank = Some 3\<rparr>]\<rparr>"




section \<open>Properties of the numbers\<close>



lemma py_float_exact:
  "py_float ''4.0'' = Finite 4 \<and> py_float ''2.5'' = Finite (5 / 2) \<and> py_float ''12'' = Finite 12"
  by code_simp

lemma py_float_rounds:
  "py_float ''0.1'' = Finite (3602879701896397 / 36028797018963968) \<and>
   py_float ''1.2'' = Finite (5404319552844595 / 4503599627370496) \<and>
   py_float ''0.1000000000000000001'' = py_float ''0.1''"
  by code_simp

lemma py_float_overflows: "py_float (CHR ''1'' # replicate 309 CHR ''0'') = PosInf"
  by code_simp

section \<open>Properties of the data frame operations\<close>

lemma sort_values_sorted: "sorted (map row_key (sort_values df))"
  unfolding sort_values_def row_key_def by (rule sorted_sort_key)

lemma set_drop_dups: "set (drop_dups seen xs) \<subseteq> set xs"
  by (induction xs arbitrary: seen) auto

lemma sorted_drop_dups: "sorted (map f xs) \<Longrightarrow> sorted (map f (drop_dups seen xs))"
proof (induction xs arbitrary: seen)
  case Nil
  then show ?case by simp
next
  case (Cons r rs)
  have sub: "set (drop_dups (Player r # seen) rs) \<subseteq> set rs"
    by (rule set_drop_dups)
  from Cons show ?case using sub by (auto simp: subset_iff)
qed

lemma drop_dups_distinct:
  "distinct (map Player (drop_dups seen xs)) \<and> Player ` set (drop_dups seen xs) \<inter> set seen = {}"
proof (induction xs arbitrary: seen)
  case Nil
  then show ?case by simp
next
  case (Cons r rs)
  show ?case
  proof (cases "Player r \<in> set seen")
    case True
    then show ?thesis using Cons [of seen] by simp
  next
    case False
    then show ?thesis using Cons [of "Player r # seen"] by auto
  qed
qed

lemma sorted_take_map: "sorted (map f xs) \<Longrightarrow> sorted (map f (take n xs))"
  by (simp add: take_map [symmetric] sorted_wrt_take)

lemma filter_less_upt: "i \<le> n \<Longrightarrow> filter (\<lambda>j. j < i) [0..<n] = [0..<i]"
proof (induction n)
  case 0
  then show ?case by simp
next
  case (Suc n)
  show ?case
  proof (cases "i = Suc n")
    case True
    then show ?thesis by (simp add: filter_id_conv)
  next
    case False
    then have "i \<le> n" using Suc.prems by simp
    then show ?thesis using Suc.IH by simp
  qed
qed

lemma rank_first_sorted:
  assumes srt: "sorted (map blend_key xs)" and i: "i < length xs"
  shows "rank_first xs ! i = (case xs ! i of None \<Rightarrow> None | Some v \<Rightarrow> Some (Suc i))"
proof (cases "xs ! i")
  case None
  then show ?thesis using i by (simp add: rank_first_def rank_at_def)
next
  case (Some v)
  have mono: "\<And>a b. a \<le> b \<Longrightarrow> b < length xs \<Longrightarrow> blend_key (xs ! a) \<le> blend_key (xs ! b)"
    using srt by (simp add: sorted_iff_nth_mono)
  have eq: "(case xs ! j of None \<Rightarrow> False | Some w \<Rightarrow> w < v \<or> (w = v \<and> j < i)) = (j < i)"
    if j: "j < length xs" for j
  proof (cases "j < i")
    case True
    then have "blend_key (xs ! j) \<le> blend_key (xs ! i)" using mono [of j i] i by simp
    then show ?thesis using True Some
      by (cases "xs ! j") (auto simp: blend_key_def)
  next
    case False
    then have "blend_key (xs ! i) \<le> blend_key (xs ! j)" using mono [of i j] j by simp
    then show ?thesis using False Some
      by (cases "xs ! j") (auto simp: blend_key_def)
  qed
  have "filter (\<lambda>j. case xs ! j of None \<Rightarrow> False | Some w \<Rightarrow> w < v \<or> (w = v \<and> j < i))
          [0..<length xs]
        = filter (\<lambda>j. j < i) [0..<length xs]"
    by (rule filter_cong) (auto simp: eq)
  also have "\<dots> = [0..<i]"
    using i by (simp add: filter_less_upt)
  finally have len:
    "length (filter (\<lambda>j. case xs ! j of None \<Rightarrow> False | Some w \<Rightarrow> w < v \<or> (w = v \<and> j < i))
       [0..<length xs]) = i"
    by simp
  have "rank_first xs ! i = rank_at xs i"
    unfolding rank_first_def using i by simp
  then show ?thesis using len Some by (simp add: rank_at_def)
qed

lemma length_rank_first: "length (rank_first xs) = length xs"
  by (simp add: rank_first_def)

lemma length_with_rank: "length (with_rank df) = length df"
  by (simp add: with_rank_def length_rank_first)

lemma with_rank_nth:
  "i < length df \<Longrightarrow>
   Player (with_rank df ! i) = Player (df ! i) \<and> Team (with_rank df ! i) = Team (df ! i) \<and>
   Pos (with_rank df ! i) = Pos (df ! i) \<and> Blend (with_rank df ! i) = Blend (df ! i) \<and>
   ADP_Rank (with_rank df ! i) = rank_first (map Blend df) ! i"
  by (simp add: with_rank_def length_rank_first)

lemma map_Player_with_rank: "map Player (with_rank df) = map Player df"
  by (rule nth_equalityI) (simp_all add: length_with_rank with_rank_nth)

lemma map_Blend_with_rank: "map Blend (with_rank df) = map Blend df"
  by (rule nth_equalityI) (simp_all add: length_with_rank with_rank_nth)

lemma map_row_key_with_rank: "map row_key (with_rank df) = map row_key df"
  by (rule nth_equalityI) (simp_all add: length_with_rank with_rank_nth row_key_def)

lemma fst_le_of_prod_le: "(p :: 'a::order \<times> 'b::order) \<le> q \<Longrightarrow> fst p \<le> fst q"
  by (auto simp: less_eq_prod_def dest: less_imp_le)

lemma row_key_le_blend:
  "row_key a \<le> row_key b \<Longrightarrow> blend_key (Blend a) \<le> blend_key (Blend b)"
  using fst_le_of_prod_le [of "row_key a" "row_key b"] by (simp add: row_key_def)

lemma sorted_blend_of_row_key:
  assumes "sorted (map row_key xs)"
  shows "sorted (map blend_key (map Blend xs))"
proof -
  have "\<And>i j. i \<le> j \<Longrightarrow> j < length xs \<Longrightarrow> row_key (xs ! i) \<le> row_key (xs ! j)"
    using assms by (simp add: sorted_iff_nth_mono)
  then show ?thesis
    by (simp add: sorted_iff_nth_mono row_key_le_blend)
qed

lemma pdf_stage_sorted:
  "sorted (map row_key (head 300 (drop_duplicates (sort_values df))))"
  unfolding head_def drop_duplicates_def
  by (intro sorted_take_map sorted_drop_dups sort_values_sorted)

lemma csv_stage_sorted: "sorted (map row_key (head 300 (sort_values df)))"
  unfolding head_def by (intro sorted_take_map sort_values_sorted)

lemma row_key_le_iff:
  "row_key a \<le> row_key b \<longleftrightarrow>
     score_le (Blend a) (Blend b) \<and> (Blend a = Blend b \<longrightarrow> name_le (Player a) (Player b))"
  by (cases "Blend a"; cases "Blend b"; cases "Player a"; cases "Player b")
     (auto simp: row_key_def blend_key_def val_key_def score_le_def name_le_def less_eq_prod_def less_prod_def)

lemma with_rank_Nil: "with_rank [] = []"
  by (simp add: with_rank_def)

lemma consolidate_rows:
  "rows (consolidate rs) =
     with_rank (head 300 (drop_duplicates (sort_values (frame_of_rows rs))))"
  by (simp add: consolidate_def empty_frame_def frame_of_rows_def sort_values_def
      drop_duplicates_def head_def with_rank_Nil)

lemma parse_pdf_rows:
  assumes "parse_pdf_cached pdfplumber pdf_bytes = Inr fr"
  shows "\<exists>rs. rows fr = with_rank (head 300 (drop_duplicates (sort_values (frame_of_rows rs))))"
proof (cases pdfplumber)
  case None
  then have "fr = empty_frame" using assms by (simp add: parse_pdf_cached_def)
  then have "rows fr = rows (consolidate [])" by (simp add: consolidate_def)
  then show ?thesis using consolidate_rows by metis
next
  case (Some pdf_open)
  then obtain pages where "fr = consolidate (pdf_rows pages)"
    using assms by (auto simp: parse_pdf_cached_def split: sum.splits)
  then show ?thesis using consolidate_rows by metis
qed

lemma parse_csv_rows:
  assumes "parse_csv read_csv num_of_str file = Inr fr"
  shows "\<exists>out. rows fr = with_rank (head 300 (sort_values out))"
  using assms unfolding parse_csv_def Let_def
  by (auto split: sum.splits)

lemma ranked_sorted_stage:
  assumes srt: "sorted (map row_key df)" and i: "i < length df"
  shows "ADP_Rank (with_rank df ! i) = (if Blend (with_rank df ! i) = None then None else Some (Suc i))"
proof -
  have "sorted (map blend_key (map Blend df))" using srt by (rule sorted_blend_of_row_key)
  then have "rank_first (map Blend df) ! i =
      (case map Blend df ! i of None \<Rightarrow> None | Some v \<Rightarrow> Some (Suc i))"
    using i by (intro rank_first_sorted) simp_all
  then show ?thesis using i by (simp add: with_rank_nth split: option.splits)
qed

lemma nulls_last_stage:
  assumes srt: "sorted (map row_key df)" and ij: "i \<le> j" "j < length df"
    and n: "Blend (df ! i) = None"
  shows "Blend (df ! j) = None"
proof -
  have "row_key (df ! i) \<le> row_key (df ! j)"
    using srt ij by (simp add: sorted_iff_nth_mono)
  then have "blend_key (Blend (df ! i)) \<le> blend_key (Blend (df ! j))"
    by (rule row_key_le_blend)
  then show ?thesis using n by (cases "Blend (df ! j)") (auto simp: blend_key_def)
qed

section \<open>The example inputs, evaluated\<close>

lemma parse_pdf_ranking_page:
  "parse_pdf_cached (Some (fixed_pages [ranking_page])) [] = Inr ranking_frame"
  by code_simp

lemma parse_csv_unscored:
  "parse_csv (fixed_csv unscored_csv) no_number [] = Inr unscored_frame"
  by code_simp

lemma parse_csv_duplicate:
  "parse_csv (fixed_csv duplicate_csv) no_number [] = Inr duplicate_frame"
  by code_simp

section \<open>The claims\<close>

text \<open>
  C9. Every roster produced by either ingestion path has at most 300 rows, whatever the
  input document: both paths end with \<open>head(300)\<close> before the ranks are added.
\<close>

theorem roster_length_at_most_300:
  "(parse_pdf_cached pdfplumber pdf_bytes = Inr fr \<longrightarrow> length (rows fr) \<le> 300) \<and>
   (parse_csv read_csv num_of_str file = Inr fr' \<longrightarrow> length (rows fr') \<le> 300)"
proof (intro conjI impI)
  assume "parse_pdf_cached pdfplumber pdf_bytes = Inr fr"
  from parse_pdf_rows [OF this] obtain rs where
    "rows fr = with_rank (head 300 (drop_duplicates (sort_values (frame_of_rows rs))))"
    by blast
  then show "length (rows fr) \<le> 300" by (simp add: length_with_rank head_def)
next
  assume "parse_csv read_csv num_of_str file = Inr fr'"
  from parse_csv_rows [OF this]
  obtain out where "rows fr' = with_rank (head 300 (sort_values out))" by blast
  then show "length (rows fr') \<le> 300" by (simp add: length_with_rank head_def)
qed

theorem roster_length_at_most_300_witness:
  "parse_pdf_cached (Some (fixed_pages [ranking_page])) [] = Inr ranking_frame \<and>
   parse_csv (fixed_csv unscored_csv) no_number [] = Inr unscored_frame \<and>
   length (rows ranking_frame) \<le> 300 \<and> length (rows unscored_frame) \<le> 300"
  using roster_length_at_most_300 [of "Some (fixed_pages [ranking_page])" "[]" ranking_frame
      "fixed_csv unscored_csv" no_number "[]" unscored_frame]
    parse_pdf_ranking_page parse_csv_unscored
  by simp

lemma ranked_stage:
  assumes srt: "sorted (map row_key df)"
  shows "(\<forall>i<length (with_rank df).
            ADP_Rank (with_rank df ! i) =
              (if Blend (with_rank df ! i) = None then None else Some (Suc i))) \<and>
         (\<forall>i j. i \<le> j \<and> j < length (with_rank df) \<and> Blend (with_rank df ! i) = None
            \<longrightarrow> Blend (with_rank df ! j) = None)"
proof (intro conjI allI impI)
  fix i assume "i < length (with_rank df)"
  then have "i < length df" by (simp add: length_with_rank)
  then show "ADP_Rank (with_rank df ! i) =
      (if Blend (with_rank df ! i) = None then None else Some (Suc i))"
    using srt by (rule ranked_sorted_stage [rotated])
next
  fix i j
  assume a: "i \<le> j \<and> j < length (with_rank df) \<and> Blend (with_rank df ! i) = None"
  then have j: "j < length df" and i: "i < length df" by (simp_all add: length_with_rank)
  from a i have "Blend (df ! i) = None" by (simp add: with_rank_nth)
  then have "Blend (df ! j) = None" using nulls_last_stage [OF srt _ j] a by blast
  then show "Blend (with_rank df ! j) = None" using j by (simp add: with_rank_nth)
qed

text \<open>
  C1, as amended. In every roster produced by either ingestion path, an entry with a score
  gets the rank that is its position in the roster, counted from one, and an entry whose
  score is missing gets a missing rank; the entries without a score come last. So the ranks
  of the \<open>K\<close> entries that have a score are exactly \<open>1..K\<close> in the sort order, equal scores
  getting distinct ranks in that order, and the ranks are \<open>1..N\<close> when no score is missing.
\<close>

theorem adp_rank_follows_position:
  "(parse_pdf_cached pdfplumber pdf_bytes = Inr fr \<longrightarrow>
      (\<forall>i<length (rows fr).
         ADP_Rank (rows fr ! i) = (if Blend (rows fr ! i) = None then None else Some (Suc i))) \<and>
      (\<forall>i j. i \<le> j \<and> j < length (rows fr) \<and> Blend (rows fr ! i) = None
         \<longrightarrow> Blend (rows fr ! j) = None)) \<and>
   (parse_csv read_csv num_of_str file = Inr fr' \<longrightarrow>
      (\<forall>i<length (rows fr').
         ADP_Rank (rows fr' ! i) = (if Blend (rows fr' ! i) = None then None else Some (Suc i))) \<and>
      (\<forall>i j. i \<le> j \<and> j < length (rows fr') \<and> Blend (rows fr' ! i) = None
         \<longrightarrow> Blend (rows fr' ! j) = None))"
proof (rule conjI; rule impI)
  assume "parse_pdf_cached pdfplumber pdf_bytes = Inr fr"
  from parse_pdf_rows [OF this] obtain rs where
    r: "rows fr = with_rank (head 300 (drop_duplicates (sort_values (frame_of_rows rs))))"
    by blast
  show "(\<forall>i<length (rows fr).
         ADP_Rank (rows fr ! i) = (if Blend (rows fr ! i) = None then None else Some (Suc i))) \<and>
      (\<forall>i j. i \<le> j \<and> j < length (rows fr) \<and> Blend (rows fr ! i) = None
         \<longrightarrow> Blend (rows fr ! j) = None)"
    unfolding r by (rule ranked_stage) (rule pdf_stage_sorted)
next
  assume "parse_csv read_csv num_of_str file = Inr fr'"
  from parse_csv_rows [OF this]
  obtain out where r: "rows fr' = with_rank (head 300 (sort_values out))" by blast
  show "(\<forall>i<length (rows fr').
         ADP_Rank (rows fr' ! i) = (if Blend (rows fr' ! i) = None then None else Some (Suc i))) \<and>
      (\<forall>i j. i \<le> j \<and> j < length (rows fr') \<and> Blend (rows fr' ! i) = None
         \<longrightarrow> Blend (rows fr' ! j) = None)"
    unfolding r by (rule ranked_stage) (rule csv_stage_sorted)
qed

theorem adp_rank_follows_position_witness:
  "parse_pdf_cached (Some (fixed_pages [ranking_page])) [] = Inr ranking_frame \<and>
   parse_csv (fixed_csv unscored_csv) no_number [] = Inr unscored_frame \<and>
   map ADP_Rank (rows ranking_frame) = [Some 1, None] \<and>
   map Blend (rows ranking_frame) = [Some (Finite (5404319552844595 / 4503599627370496)), None] \<and>
   map ADP_Rank (rows unscored_frame) = [Some 1, None] \<and>
   map Blend (rows unscored_frame) = [Some (Finite 2), None]"
  using adp_rank_follows_position [of "Some (fixed_pages [ranking_page])" "[]" ranking_frame
      "fixed_csv unscored_csv" no_number "[]" unscored_frame]
    parse_pdf_ranking_page parse_csv_unscored
  by (simp add: ranking_frame_def unscored_frame_def)

text \<open>
  C1 as stated fails: in the roster of \<open>ranking_page\<close> the second of the two entries has no
  score and is assigned no rank, so the ranks are not a permutation of \<open>1..2\<close>.
\<close>

theorem null_score_gets_no_rank:
  "parse_pdf_cached (Some (fixed_pages [ranking_page])) [] = Inr ranking_frame \<and>
   Blend (rows ranking_frame ! 1) = None \<and> ADP_Rank (rows ranking_frame ! 1) = None \<and>
   length (rows ranking_frame) = 2 \<and>
   map ADP_Rank (rows ranking_frame) = [Some 1, None]"
  using parse_pdf_ranking_page by (simp add: ranking_frame_def)

lemma parse_pdf_tie_page:
  "parse_pdf_cached (Some (fixed_pages [tie_page])) [] = Inr tie_frame"
  by code_simp

lemma ordered_stage:
  assumes srt: "sorted (map row_key df)"
  shows "\<forall>i j. i < j \<and> j < length (with_rank df) \<longrightarrow>
           score_le (Blend (with_rank df ! i)) (Blend (with_rank df ! j)) \<and>
           (Blend (with_rank df ! i) = Blend (with_rank df ! j) \<longrightarrow>
              name_le (Player (with_rank df ! i)) (Player (with_rank df ! j)))"
proof (intro allI impI)
  fix i j
  assume a: "i < j \<and> j < length (with_rank df)"
  have "sorted (map row_key (with_rank df))"
    using srt by (simp add: map_row_key_with_rank)
  then have "row_key (with_rank df ! i) \<le> row_key (with_rank df ! j)"
    using a by (simp add: sorted_iff_nth_mono)
  then show "score_le (Blend (with_rank df ! i)) (Blend (with_rank df ! j)) \<and>
           (Blend (with_rank df ! i) = Blend (with_rank df ! j) \<longrightarrow>
              name_le (Player (with_rank df ! i)) (Player (with_rank df ! j)))"
    by (simp add: row_key_le_iff)
qed

lemma pdf_players_are_strings:
  assumes "r \<in> set (with_rank (head 300 (drop_duplicates (sort_values (frame_of_rows rs)))))"
  shows "\<exists>p. Player r = Str p"
proof -
  have "Player r \<in> set (map Player (head 300 (drop_duplicates (sort_values (frame_of_rows rs)))))"
    using assms by (metis map_Player_with_rank image_eqI set_map)
  then obtain q where q: "q \<in> set (head 300 (drop_duplicates (sort_values (frame_of_rows rs))))"
    and pq: "Player r = Player q" by auto
  from q have "q \<in> set (drop_duplicates (sort_values (frame_of_rows rs)))"
    unfolding head_def by (rule in_set_takeD)
  then have "q \<in> set (sort_values (frame_of_rows rs))"
    unfolding drop_duplicates_def using set_drop_dups by blast
  then have "q \<in> set (frame_of_rows rs)" by (simp add: sort_values_def)
  then show ?thesis using pq by (auto simp: frame_of_rows_def)
qed

text \<open>
  C5. In every roster produced by either ingestion path the rows are in non-decreasing
  order of score, a missing score counting as plus infinity (so the entries without a score
  come after all the others), and among entries of equal score in non-decreasing order of
  player name. On the PDF path every player name is a string, ordered by its characters.
\<close>

theorem roster_sorted_by_score_then_name:
  "(parse_pdf_cached pdfplumber pdf_bytes = Inr fr \<longrightarrow>
      (\<forall>i j. i < j \<and> j < length (rows fr) \<longrightarrow>
         score_le (Blend (rows fr ! i)) (Blend (rows fr ! j)) \<and>
         (Blend (rows fr ! i) = Blend (rows fr ! j) \<longrightarrow>
            name_le (Player (rows fr ! i)) (Player (rows fr ! j)))) \<and>
      (\<forall>r \<in> set (rows fr). \<exists>p. Player r = Str p)) \<and>
   (parse_csv read_csv num_of_str file = Inr fr' \<longrightarrow>
      (\<forall>i j. i < j \<and> j < length (rows fr') \<longrightarrow>
         score_le (Blend (rows fr' ! i)) (Blend (rows fr' ! j)) \<and>
         (Blend (rows fr' ! i) = Blend (rows fr' ! j) \<longrightarrow>
            name_le (Player (rows fr' ! i)) (Player (rows fr' ! j)))))"
proof (rule conjI; rule impI)
  assume "parse_pdf_cached pdfplumber pdf_bytes = Inr fr"
  from parse_pdf_rows [OF this] obtain rs where
    r: "rows fr = with_rank (head 300 (drop_duplicates (sort_values (frame_of_rows rs))))"
    by blast
  have "\<forall>i j. i < j \<and> j < length (rows fr) \<longrightarrow>
         score_le (Blend (rows fr ! i)) (Blend (rows fr ! j)) \<and>
         (Blend (rows fr ! i) = Blend (rows fr ! j) \<longrightarrow>
            name_le (Player (rows fr ! i)) (Player (rows fr ! j)))"
    unfolding r by (rule ordered_stage) (rule pdf_stage_sorted)
  moreover have "\<forall>r \<in> set (rows fr). \<exists>p. Player r = Str p"
    unfolding r using pdf_players_are_strings by blast
  ultimately show "(\<forall>i j. i < j \<and> j < length (rows fr) \<longrightarrow>
         score_le (Blend (rows fr ! i)) (Blend (rows fr ! j)) \<and>
         (Blend (rows fr ! i) = Blend (rows fr ! j) \<longrightarrow>
            name_le (Player (rows fr ! i)) (Player (rows fr ! j)))) \<and>
      (\<forall>r \<in> set (rows fr). \<exists>p. Player r = Str p)" by (rule conjI)
next
  assume "parse_csv read_csv num_of_str file = Inr fr'"
  from parse_csv_rows [OF this]
  obtain out where r: "rows fr' = with_rank (head 300 (sort_values out))" by blast
  show "\<forall>i j. i < j \<and> j < length (rows fr') \<longrightarrow>
         score_le (Blend (rows fr' ! i)) (Blend (rows fr' ! j)) \<and>
         (Blend (rows fr' ! i) = Blend (rows fr' ! j) \<longrightarrow>
            name_le (Player (rows fr' ! i)) (Player (rows fr' ! j)))"
    unfolding r by (rule ordered_stage) (rule csv_stage_sorted)
qed

theorem roster_sorted_by_score_then_name_witness:
  "parse_pdf_cached (Some (fixed_pages [tie_page])) [] = Inr tie_frame \<and>
   parse_csv (fixed_csv unscored_csv) no_number [] = Inr unscored_frame \<and>
   score_le (Blend (rows tie_frame ! 1)) (Blend (rows tie_frame ! 2)) \<and>
   name_le (Player (rows tie_frame ! 1)) (Player (rows tie_frame ! 2)) \<and>
   score_le (Blend (rows unscored_frame ! 0)) (Blend (rows unscored_frame ! 1))"
  using roster_sorted_by_score_then_name [of "Some (fixed_pages [tie_page])" "[]" tie_frame
      "fixed_csv unscored_csv" no_number "[]" unscored_frame]
    parse_pdf_tie_page parse_csv_unscored
  by (simp add: tie_frame_def unscored_frame_def score_le_def name_le_def)

lemma pdf_players_distinct:
  assumes "parse_pdf_cached pdfplumber pdf_bytes = Inr fr"
  shows "distinct (map Player (rows fr))"
proof -
  from parse_pdf_rows [OF assms] obtain rs where
    r: "rows fr = with_rank (head 300 (drop_duplicates (sort_values (frame_of_rows rs))))"
    by blast
  have "distinct (map Player (drop_duplicates (sort_values (frame_of_rows rs))))"
    unfolding drop_duplicates_def using drop_dups_distinct by blast
  then have "distinct (map Player (head 300 (drop_duplicates (sort_values (frame_of_rows rs)))))"
    unfolding head_def by (simp add: take_map [symmetric] distinct_take)
  then show ?thesis unfolding r by (simp add: map_Player_with_rank)
qed

text \<open>
  C2. No two entries of a roster share a player. The PDF path keeps this
  (\<open>pdf_players_distinct\<close>: it drops the duplicates after sorting). The CSV path has no such
  step: for the file \<open>Player,Blend / A B,1 / A B,2\<close> it returns both rows, with the same
  player.
\<close>

theorem csv_keeps_duplicate_players:
  "parse_csv (fixed_csv duplicate_csv) no_number [] = Inr duplicate_frame \<and>
   map Player (rows duplicate_frame) = [Str ''A B'', Str ''A B''] \<and>
   \<not> distinct (map Player (rows duplicate_frame))"
  using parse_csv_duplicate by (simp add: duplicate_frame_def)

text \<open>
  C3. For every roster and every set of drafted players, the players of the remaining rows
  together with the players of the drafted rows are the players of the roster, and no
  player is on both sides.
\<close>

theorem remaining_drafted_partition:
  "Player ` set (remaining_df df d) \<union> Player ` set (drafted_df df d) = Player ` set (rows df) \<and>
   Player ` set (remaining_df df d) \<inter> Player ` set (drafted_df df d) = {}"
  by (auto simp: remaining_df_def drafted_df_def)

text \<open>
  C4. Moving a selection to the drafted players gives the union of the drafted set and the
  selection, so the drafted set only grows; an empty selection changes nothing; and moving
  the same selection twice gives the state that moving it once gives.
\<close>

theorem move_to_drafted_union_idempotent:
  "drafted (move_to_drafted x st) = drafted st \<union> set x \<and>
   drafted st \<subseteq> drafted (move_to_drafted x st) \<and>
   move_to_drafted [] st = st \<and>
   move_to_drafted x (move_to_drafted x st) = move_to_drafted x st"
  by (auto simp: move_to_drafted_def)

text \<open>
  C7. The text-line extractor, on the single line \<open>7. Luka Doncic (PG/SG) DAL 4.0\<close>, gives
  exactly one raw record: player \<open>Luka Doncic\<close>, team \<open>DAL\<close>, position \<open>PG/SG\<close>, score 4.
\<close>

theorem text_line_luka_doncic:
  "text_line ''7. Luka Doncic (PG/SG) DAL 4.0'' = Some (''Luka Doncic'', ''DAL'', ''PG/SG'', Some (Finite 4)) \<and>
   page_rows \<lparr>extract_tables = None, extract_text = Some ''7. Luka Doncic (PG/SG) DAL 4.0''\<rparr>
     = [(''Luka Doncic'', ''DAL'', ''PG/SG'', Some (Finite 4))]"
  by code_simp

lemma pdf_rows_chrome_page: "pdf_rows [chrome_page] = []"
  by code_simp

text \<open>
  C8. Without data the PDF path returns the empty roster with the five columns and raises
  nothing: when \<open>pdfplumber\<close> cannot be imported, and when the pages of the file give no raw
  record.
\<close>

theorem parse_pdf_empty_without_data:
  "parse_pdf_cached None pdf_bytes = Inr empty_frame \<and>
   (pdf_open pdf_bytes = Inr pages \<and> pdf_rows pages = [] \<longrightarrow>
      parse_pdf_cached (Some pdf_open) pdf_bytes = Inr empty_frame) \<and>
   columns (empty_frame :: binary64 frame) = [''Player'', ''Team'', ''Pos'', ''Blend'', ''ADP_Rank''] \<and>
   rows (empty_frame :: binary64 frame) = []"
  by (simp add: parse_pdf_cached_def consolidate_def empty_frame_def)

theorem parse_pdf_empty_without_data_witness:
  "fixed_pages [chrome_page] [] = Inr [chrome_page] \<and> pdf_rows [chrome_page] = [] \<and>
   parse_pdf_cached (Some (fixed_pages [chrome_page])) [] = Inr empty_frame"
  using parse_pdf_empty_without_data [of "[]" "fixed_pages [chrome_page]" "[chrome_page]"]
    pdf_rows_chrome_page
  by (simp add: fixed_pages_def)














end
